theory Spec2Isabelle
  imports Complex_Main "HOL-Library.AList"
begin

section \<open>Python strings\<close>

text \<open>
  A Python \<open>str\<close> is a \<open>string\<close> (a list of characters). The double-quote
  character that the query templates contain is written \<open>DQ\<close>.
\<close>

abbreviation DQ :: char where
  "DQ \<equiv> CHR 0x22"

text \<open>\<open>in_str.split(',')\<close>: the pieces between the separators, empty pieces kept.\<close>

fun split_on :: "char \<Rightarrow> string \<Rightarrow> string list" where
  "split_on c [] = [[]]"
| "split_on c (x # xs) =
     (if x = c then [] # split_on c xs
      else (case split_on c xs of
              [] \<Rightarrow> [[x]]
            | w # ws \<Rightarrow> (x # w) # ws))"

text \<open>\<open>sep.join(parts)\<close>.\<close>

fun join :: "string \<Rightarrow> string list \<Rightarrow> string" where
  "join sep [] = []"
| "join sep [p] = p"
| "join sep (p # q # ps) = p @ sep @ join sep (q # ps)"

section \<open>Query Builder: filter clauses\<close>

text \<open>
  \<^verbatim>\<open>
  def createFluxFilters(col_name, in_str):
      if in_str is None:
          return ""
      if ',' in in_str:
          in_list = in_str.split(',')
      else:
          in_list = [in_str]
      filter_list = []
      for i in in_list:
          filter_list.append(f'r["{col_name}"] == "{i}"')
      filter_list_str = " or ".join(filter_list)
      if len(filter_list) > 0:
          flux_line = f'|> filter(fn: (r) => {filter_list_str})'
      else:
          flux_line = ""
      return flux_line
  \<close>
  The optional command-line value is a \<open>string option\<close>, \<open>None\<close> when the option
  was not given.
\<close>

definition equality_predicate :: "string \<Rightarrow> string \<Rightarrow> string" where
  "equality_predicate col_name i =
     ''r['' @ [DQ] @ col_name @ [DQ] @ ''] == '' @ [DQ] @ i @ [DQ]"

text \<open>The \<open>for\<close> loop, appending to \<open>filter_list\<close>.\<close>

fun filter_loop :: "string \<Rightarrow> string list \<Rightarrow> string list \<Rightarrow> string list" where
  "filter_loop col_name [] filter_list = filter_list"
| "filter_loop col_name (i # in_list) filter_list =
     filter_loop col_name in_list (filter_list @ [equality_predicate col_name i])"

definition createFluxFilters :: "string \<Rightarrow> string option \<Rightarrow> string" where
  "createFluxFilters col_name in_str_opt =
     (case in_str_opt of
        None \<Rightarrow> []
      | Some in_str \<Rightarrow>
          (let in_list = (if CHR '','' \<in> set in_str then split_on (CHR '','') in_str
                          else [in_str]);
               filter_list = filter_loop col_name in_list [];
               filter_list_str = join '' or '' filter_list
           in if length filter_list > 0
              then ''|> filter(fn: (r) => '' @ filter_list_str @ '')''
              else []))"

text \<open>
  The values of a comma-separated string: the maximal comma-free pieces, in order.
  This is the reading of "comma-separated string of n values" that the filter claim
  is stated with; it is independent of the branch on \<open>',' in in_str\<close> in the code.
\<close>

definition comma_values :: "string \<Rightarrow> string list" where
  "comma_values s = split_on (CHR '','') s"

section \<open>Errors and effects\<close>

text \<open>
  Every exception the modelled code can raise is a value. \<open>SystemExit n\<close> is what the
  builtin \<open>exit(n)\<close> raises: the interpreter ends the process with status \<open>n\<close> and
  prints no traceback for it. The other errors are uncaught exceptions.
\<close>

datatype error =
    KeyError "string list"
  | IndexError
  | AttributeError
  | TypeError
  | ValueError
  | UnknownTimeZoneError
  | UnpicklingError
  | OverflowError
  | FileNotFoundError
  | IsADirectoryError
  | SystemExit int

section \<open>Data frames\<close>

text \<open>
  A time zone, as pandas uses it for \<open>tz_convert\<close>: the UTC offset (in nanoseconds)
  in force at an instant (nanoseconds since the epoch, UTC). The zone database is
  external.
\<close>

type_synonym tz = "int \<Rightarrow> int"

text \<open>
  A column (a pandas Series) by dtype. Measured values have the abstract type \<open>'v\<close>.
  \<^item> \<open>StrCol\<close>: strings (the result label, the measurement, the tags);
  \<^item> \<open>DatetimeTZCol z ts\<close>: tz-aware timestamps in zone \<open>z\<close>, each the instant in
    nanoseconds since the epoch (UTC);
  \<^item> \<open>DatetimeCol ts\<close>: naive timestamps, nanoseconds of wall-clock time since
    1970-01-01T00:00:00;
  \<^item> \<open>TimedeltaCol ds\<close>: durations in nanoseconds;
  \<^item> \<open>FloatQuotCol ds d\<close>: the float64 column that the true division of the
    nanosecond counts \<open>ds\<close> by \<open>d\<close> nanoseconds produces. The floating-point
    quotient is not computed: the column keeps the operands.
\<close>

datatype 'v series =
    StrCol "string list"
  | ValCol "'v list"
  | DatetimeTZCol tz "int list"
  | DatetimeCol "int list"
  | TimedeltaCol "int list"
  | FloatQuotCol "int list" int

datatype 'v scalar =
    SStr string
  | SVal 'v
  | STimestampTZ tz int
  | STimestamp int
  | STimedelta int
  | SFloatQuot int int

text \<open>A data frame: the labelled columns, in order.\<close>

type_synonym 'v dataframe = "(string \<times> 'v series) list"

fun slen :: "'v series \<Rightarrow> nat" where
  "slen (StrCol xs) = length xs"
| "slen (ValCol xs) = length xs"
| "slen (DatetimeTZCol z xs) = length xs"
| "slen (DatetimeCol xs) = length xs"
| "slen (TimedeltaCol xs) = length xs"
| "slen (FloatQuotCol xs d) = length xs"

text \<open>The first element of a column, when it has one.\<close>

fun shead :: "'v series \<Rightarrow> 'v scalar option" where
  "shead (StrCol xs) = (case xs of [] \<Rightarrow> None | x # _ \<Rightarrow> Some (SStr x))"
| "shead (ValCol xs) = (case xs of [] \<Rightarrow> None | x # _ \<Rightarrow> Some (SVal x))"
| "shead (DatetimeTZCol z xs) = (case xs of [] \<Rightarrow> None | x # _ \<Rightarrow> Some (STimestampTZ z x))"
| "shead (DatetimeCol xs) = (case xs of [] \<Rightarrow> None | x # _ \<Rightarrow> Some (STimestamp x))"
| "shead (TimedeltaCol xs) = (case xs of [] \<Rightarrow> None | x # _ \<Rightarrow> Some (STimedelta x))"
| "shead (FloatQuotCol xs d) = (case xs of [] \<Rightarrow> None | x # _ \<Rightarrow> Some (SFloatQuot x d))"

definition columns :: "'v dataframe \<Rightarrow> string list" where
  "columns df = map fst df"

text \<open>
  \<open>df[c]\<close>: KeyError when no column has the label, the column when exactly one has
  it, and a frame of all the columns with that label when several have it.
\<close>

datatype 'v selection = Series "'v series" | Frame "'v dataframe"

definition getitem :: "'v dataframe \<Rightarrow> string \<Rightarrow> error + 'v selection" where
  "getitem df c =
     (case filter (\<lambda>col. fst col = c) df of
        [] \<Rightarrow> Inl (KeyError [c])
      | [col] \<Rightarrow> Inr (Series (snd col))
      | col # col' # cols \<Rightarrow> Inr (Frame (col # col' # cols)))"

text \<open>
  \<open>.iloc[0]\<close>: the first element of a column, the first row of a frame; IndexError
  when there is none.
\<close>

datatype 'v pyval = Scalar "'v scalar" | Row "(string \<times> 'v scalar) list"

fun first_row :: "'v dataframe \<Rightarrow> (string \<times> 'v scalar) list option" where
  "first_row [] = Some []"
| "first_row ((c, s) # cols) =
     (case shead s of
        None \<Rightarrow> None
      | Some x \<Rightarrow> (case first_row cols of None \<Rightarrow> None | Some r \<Rightarrow> Some ((c, x) # r)))"

fun iloc0 :: "'v selection \<Rightarrow> error + 'v pyval" where
  "iloc0 (Series s) = (case shead s of None \<Rightarrow> Inl IndexError | Some x \<Rightarrow> Inr (Scalar x))"
| "iloc0 (Frame cols) = (case first_row cols of None \<Rightarrow> Inl IndexError | Some r \<Rightarrow> Inr (Row r))"

text \<open>
  \<open>f"{x}"\<close>: a string formats as itself. The text Python gives any other value
  (a number, a timestamp, a row) is external and taken as the parameter \<open>fmt\<close>.
\<close>

fun py_format :: "('v pyval \<Rightarrow> string) \<Rightarrow> 'v pyval \<Rightarrow> string" where
  "py_format fmt (Scalar (SStr s)) = s"
| "py_format fmt v = fmt v"

text \<open>
  \<open>df.drop(columns=labels)\<close>: KeyError (naming the missing labels) when a label is
  not a column; otherwise every column with one of the labels is removed.
\<close>

definition drop_columns :: "'v dataframe \<Rightarrow> string list \<Rightarrow> error + 'v dataframe" where
  "drop_columns df labels =
     (case filter (\<lambda>l. l \<notin> set (columns df)) labels of
        [] \<Rightarrow> Inr (filter (\<lambda>col. fst col \<notin> set labels) df)
      | missing \<Rightarrow> Inl (KeyError missing))"

text \<open>\<open>df.rename(columns={old: new})\<close>: a label that is absent is ignored.\<close>

definition rename_column :: "'v dataframe \<Rightarrow> string \<Rightarrow> string \<Rightarrow> 'v dataframe" where
  "rename_column df old new = map (\<lambda>col. if fst col = old then (new, snd col) else col) df"

text \<open>\<open>df[c] = s\<close>: replaces the column in place, or appends it when the label is new.\<close>

definition setitem :: "'v dataframe \<Rightarrow> string \<Rightarrow> 'v series \<Rightarrow> 'v dataframe" where
  "setitem df c s =
     (if c \<in> set (columns df) then map (\<lambda>col. if fst col = c then (c, s) else col) df
      else df @ [(c, s)])"

text \<open>
  \<open>df[c].dt\<close>: the datetime accessor exists on a datetime-like column only; a frame
  (several columns with the label) has no such attribute.
\<close>

fun dt_accessor :: "'v selection \<Rightarrow> error + 'v series" where
  "dt_accessor (Series (DatetimeTZCol z xs)) = Inr (DatetimeTZCol z xs)"
| "dt_accessor (Series (DatetimeCol xs)) = Inr (DatetimeCol xs)"
| "dt_accessor (Series (TimedeltaCol xs)) = Inr (TimedeltaCol xs)"
| "dt_accessor (Series (StrCol xs)) = Inl AttributeError"
| "dt_accessor (Series (ValCol xs)) = Inl AttributeError"
| "dt_accessor (Series (FloatQuotCol xs d)) = Inl AttributeError"
| "dt_accessor (Frame cols) = Inl AttributeError"

text \<open>
  \<open>.tz_convert(z)\<close>: the instants stay, the zone changes; TypeError on naive
  timestamps, AttributeError on durations.
\<close>

fun tz_convert :: "tz \<Rightarrow> 'v series \<Rightarrow> error + 'v series" where
  "tz_convert z (DatetimeTZCol z0 xs) = Inr (DatetimeTZCol z xs)"
| "tz_convert z (DatetimeCol xs) = Inl TypeError"
| "tz_convert z s = Inl AttributeError"

text \<open>
  \<open>.tz_localize(None)\<close>: the zone is removed and each timestamp becomes the wall-clock
  time of its zone.
\<close>

fun tz_localize_None :: "'v series \<Rightarrow> error + 'v series" where
  "tz_localize_None (DatetimeTZCol z xs) = Inr (DatetimeCol (map (\<lambda>t. t + z t) xs))"
| "tz_localize_None (DatetimeCol xs) = Inr (DatetimeCol xs)"
| "tz_localize_None s = Inl AttributeError"

text \<open>
  \<open>df[c] - pd.Timestamp("1970-01-01")\<close>, the naive epoch being wall-clock time 0:
  durations from naive timestamps, TypeError otherwise.
\<close>

fun sub_epoch :: "'v selection \<Rightarrow> error + 'v series" where
  "sub_epoch (Series (DatetimeCol xs)) = Inr (TimedeltaCol (map (\<lambda>t. t - 0) xs))"
| "sub_epoch sel = Inl TypeError"

text \<open>\<open>... / pd.Timedelta('1s')\<close>: one second is \<open>10^9\<close> nanoseconds.\<close>

fun div_second :: "'v series \<Rightarrow> error + 'v series" where
  "div_second (TimedeltaCol ds) = Inr (FloatQuotCol ds 1000000000)"
| "div_second s = Inl TypeError"

text \<open>The output bundle: the normalized tables by identifier, in insertion order.\<close>

type_synonym 'v output_bundle = "(string \<times> 'v dataframe) list"

text \<open>
  What a written file holds: \<open>to_csv(header=False, index=False)\<close> of a table,
  \<open>savemat\<close> of the named value arrays, or the pickled dictionary of tables.
\<close>

datatype 'v file_content =
    CsvNoHeaderNoIndex "'v dataframe"
  | MatArrays "(string \<times> 'v series list) list"
  | PickledBundle "'v output_bundle"

text \<open>
  A computation that prints and writes files and may raise: the events so far, and
  the value or the exception.
\<close>

datatype 'v event = Print string | WriteFile string "'v file_content"

type_synonym ('v, 'a) result = "'v event list \<times> (error + 'a)"

definition ok :: "'a \<Rightarrow> ('v, 'a) result" where
  "ok x = ([], Inr x)"

definition lift :: "error + 'a \<Rightarrow> ('v, 'a) result" where
  "lift r = ([], r)"

definition print :: "string \<Rightarrow> ('v, unit) result" where
  "print s = ([Print s], Inr ())"

definition write_file :: "string \<Rightarrow> 'v file_content \<Rightarrow> ('v, unit) result" where
  "write_file name content = ([WriteFile name content], Inr ())"

definition bind :: "('v, 'a) result \<Rightarrow> ('a \<Rightarrow> ('v, 'b) result) \<Rightarrow> ('v, 'b) result" where
  "bind m f =
     (case snd m of
        Inl e \<Rightarrow> (fst m, Inl e)
      | Inr x \<Rightarrow> (fst m @ fst (f x), snd (f x)))"

definition ebind :: "error + 'a \<Rightarrow> ('a \<Rightarrow> error + 'b) \<Rightarrow> error + 'b" where
  "ebind m f = (case m of Inl e \<Rightarrow> Inl e | Inr x \<Rightarrow> f x)"

section \<open>Result Normalizer\<close>

text \<open>
  \<^verbatim>\<open>
  def processInfluxDF(df, output_tz):
      cur_box = df["_measurement"].iloc[0]
      cur_id = df["id"].iloc[0]
      id_str = f"{cur_box}_{cur_id}"
      out_df = df.drop(columns=["result", "table", "_measurement", "id"])
      if "baro_time" in out_df:
          out_df.drop(columns=["baro_time"], inplace=True)
      if "err" in out_df:
          err_list = pd.Series(list("err")).unique()
          if len(err_list) > 1:
              print("WARNING: Some anemometer values were recorded with an error code")
          out_df.drop(columns=["err"], inplace=True)
      out_df.rename(columns={'_time': 'time'}, inplace=True)
      out_df["time"] = out_df["time"].dt.tz_convert(output_tz)
      out_df["time"] = out_df["time"].dt.tz_localize(None)
      out_df["time"] = (out_df["time"] - pd.Timestamp("1970-01-01")) / pd.Timedelta('1s')
      return id_str,out_df
  \<close>
  \<open>drop\<close> returns a new frame, so the caller's \<open>df\<close> is not changed. The zone
  \<open>output_tz\<close> is given resolved (the name is looked up by the library).
\<close>

definition err_warning :: string where
  "err_warning = ''WARNING: Some anemometer values were recorded with an error code''"

text \<open>\<open>pd.Series(list("err")).unique()\<close>: the distinct characters of the literal.\<close>

definition err_list :: "char list" where
  "err_list = remdups ''err''"

definition drop_baro_time :: "'v dataframe \<Rightarrow> error + 'v dataframe" where
  "drop_baro_time out_df =
     (if ''baro_time'' \<in> set (columns out_df) then drop_columns out_df [''baro_time'']
      else Inr out_df)"

definition drop_err :: "'v dataframe \<Rightarrow> ('v, 'v dataframe) result" where
  "drop_err out_df =
     (if ''err'' \<in> set (columns out_df)
      then bind (if length err_list > 1 then print err_warning else ok ())
             (\<lambda>_. lift (drop_columns out_df [''err'']))
      else ok out_df)"

definition convert_time :: "tz \<Rightarrow> 'v dataframe \<Rightarrow> error + 'v dataframe" where
  "convert_time output_tz out_df0 =
     (let out_df1 = rename_column out_df0 ''_time'' ''time''
      in ebind (ebind (ebind (getitem out_df1 ''time'') dt_accessor) (tz_convert output_tz))
           (\<lambda>t2. let out_df2 = setitem out_df1 ''time'' t2
                 in ebind (ebind (ebind (getitem out_df2 ''time'') dt_accessor) tz_localize_None)
                      (\<lambda>t3. let out_df3 = setitem out_df2 ''time'' t3
                            in ebind (ebind (ebind (getitem out_df3 ''time'') sub_epoch) div_second)
                                 (\<lambda>t4. Inr (setitem out_df3 ''time'' t4)))))"

definition processInfluxDF ::
  "('v pyval \<Rightarrow> string) \<Rightarrow> 'v dataframe \<Rightarrow> tz \<Rightarrow> ('v, string \<times> 'v dataframe) result" where
  "processInfluxDF fmt df output_tz =
     bind (lift (ebind (getitem df ''_measurement'') iloc0)) (\<lambda>cur_box.
     bind (lift (ebind (getitem df ''id'') iloc0)) (\<lambda>cur_id.
     let id_str = py_format fmt cur_box @ ''_'' @ py_format fmt cur_id
     in bind (lift (drop_columns df [''result'', ''table'', ''_measurement'', ''id''])) (\<lambda>out_df.
        bind (lift (drop_baro_time out_df)) (\<lambda>out_df.
        bind (drop_err out_df) (\<lambda>out_df.
        bind (lift (convert_time output_tz out_df)) (\<lambda>out_df.
        ok (id_str, out_df)))))))"

text \<open>
  A raw result table, as the query (pivoted on \<open>_time\<close>) returns it: the labels are
  distinct, all columns have the same number of rows, the bookkeeping columns
  \<open>result\<close> and \<open>table\<close> are there, the measurement and the \<open>id\<close> tag are string
  columns, \<open>_time\<close> holds tz-aware timestamps, and no column is already called
  \<open>time\<close>.
\<close>

definition nrows :: "'v dataframe \<Rightarrow> nat" where
  "nrows df = (case df of [] \<Rightarrow> 0 | col # _ \<Rightarrow> slen (snd col))"

fun is_str_col :: "'v series option \<Rightarrow> bool" where
  "is_str_col (Some (StrCol xs)) = True"
| "is_str_col other = False"

fun is_tz_col :: "'v series option \<Rightarrow> bool" where
  "is_tz_col (Some (DatetimeTZCol z xs)) = True"
| "is_tz_col other = False"

definition raw_table :: "'v dataframe \<Rightarrow> bool" where
  "raw_table df \<longleftrightarrow>
     distinct (columns df)
     \<and> list_all (\<lambda>col. slen (snd col) = nrows df) df
     \<and> ''result'' \<in> set (columns df)
     \<and> ''table'' \<in> set (columns df)
     \<and> is_str_col (map_of df ''_measurement'')
     \<and> is_str_col (map_of df ''id'')
     \<and> is_tz_col (map_of df ''_time'')
     \<and> ''time'' \<notin> set (columns df)"

text \<open>The labels the normalizer removes, and the label it renames.\<close>

definition removed_labels :: "string list" where
  "removed_labels = [''result'', ''table'', ''_measurement'', ''id'', ''baro_time'', ''err'']"

section \<open>Processing the result tables\<close>

text \<open>
  \<^verbatim>\<open>
  out_df = {}
  for df in dfs_list:
      cur_idstr,cur_df = processInfluxDF(df, args.output_zone)
      out_df[cur_idstr] = cur_df
  \<close>
  The dictionary is an association list in insertion order; an assignment to a key
  that is present replaces its value where it stands.
\<close>

fun process_dataframes ::
  "('v pyval \<Rightarrow> string) \<Rightarrow> tz \<Rightarrow> 'v dataframe list \<Rightarrow> 'v output_bundle \<Rightarrow> ('v, 'v output_bundle) result" where
  "process_dataframes fmt output_tz [] out_df = ok out_df"
| "process_dataframes fmt output_tz (df # dfs_list) out_df =
     (case processInfluxDF fmt df output_tz of
        (evs, Inl e) \<Rightarrow> (evs, Inl e)
      | (evs, Inr (cur_idstr, cur_df)) \<Rightarrow>
          (case process_dataframes fmt output_tz dfs_list (AList.update cur_idstr cur_df out_df) of
             (evs', r) \<Rightarrow> (evs @ evs', r)))"

section \<open>Exporter\<close>

text \<open>
  \<open>os.path.splitext\<close> (posixpath): the extension starts at the last dot of the last
  path component, unless that component has only dots before it.
  \<^verbatim>\<open>
  sepIndex = p.rfind('/')
  dotIndex = p.rfind('.')
  if dotIndex > sepIndex:
      filenameIndex = sepIndex + 1
      while filenameIndex < dotIndex:
          if p[filenameIndex:filenameIndex+1] != '.':
              return p[:dotIndex], p[dotIndex:]
          filenameIndex += 1
  return p, p[:0]
  \<close>
\<close>

fun rfind_from :: "char \<Rightarrow> string \<Rightarrow> int \<Rightarrow> int" where
  "rfind_from c [] i = -1"
| "rfind_from c (x # xs) i =
     (let r = rfind_from c xs (i + 1) in if r \<noteq> -1 then r else if x = c then i else -1)"

definition rfind :: "char \<Rightarrow> string \<Rightarrow> int" where
  "rfind c p = rfind_from c p 0"

function splitext_loop :: "string \<Rightarrow> int \<Rightarrow> int \<Rightarrow> (string \<times> string) option" where
  "splitext_loop p filenameIndex dotIndex =
     (if filenameIndex < dotIndex
      then (if take 1 (drop (nat filenameIndex) p) \<noteq> ''.''
            then Some (take (nat dotIndex) p, drop (nat dotIndex) p)
            else splitext_loop p (filenameIndex + 1) dotIndex)
      else None)"
  by pat_completeness auto
termination
  by (relation "measure (\<lambda>(p, f, d). nat (d - f))") auto

definition splitext :: "string \<Rightarrow> string \<times> string" where
  "splitext p =
     (let sepIndex = rfind (CHR ''/'') p;
          dotIndex = rfind (CHR ''.'') p
      in case (if dotIndex > sepIndex then splitext_loop p (sepIndex + 1) dotIndex else None) of
           Some r \<Rightarrow> r
         | None \<Rightarrow> (p, []))"

text \<open>
  \<^verbatim>\<open>
  output_name, output_type = os.path.splitext(args.output_file)
  if output_type == ".csv":
      for cur_name,cur_df in out_df.items():
          output_filename = f"{output_name}_{cur_name}.csv"
          cur_df.to_csv(output_filename, header=False, index=False)
          print(f"Saved file {output_filename} successfully.")
  elif output_type == ".mat":
      mat_df = {key: df.values for key, df in out_df.items()}
      output_filename = f"{output_name}.mat"
      savemat(output_filename, mat_df)
      print(f"Saved file {output_filename} successfully. Load in matlab.")
  elif output_type == ".pickle":
      output_filename = f"{output_name}.pickle"
      with open(output_filename, "wb") as f:
          pickle.dump(out_df, f, protocol=pickle.HIGHEST_PROTOCOL)
          print(f"\nSaved file {output_filename} successfully. Serialized as a dictionary of dataframes.")
  \<close>
\<close>

fun export_csv :: "string \<Rightarrow> 'v output_bundle \<Rightarrow> 'v event list" where
  "export_csv output_name [] = []"
| "export_csv output_name ((cur_name, cur_df) # items) =
     (let output_filename = output_name @ ''_'' @ cur_name @ ''.csv''
      in [WriteFile output_filename (CsvNoHeaderNoIndex cur_df),
          Print (''Saved file '' @ output_filename @ '' successfully.'')]
         @ export_csv output_name items)"

definition export_output :: "'v output_bundle \<Rightarrow> string \<Rightarrow> ('v, unit) result" where
  "export_output out_df output_file =
     (let output_name = fst (splitext output_file);
          output_type = snd (splitext output_file)
      in if output_type = ''.csv'' then (export_csv output_name out_df, Inr ())
         else if output_type = ''.mat'' then
           (let mat_df = map (\<lambda>item. (fst item, map snd (snd item))) out_df;
                output_filename = output_name @ ''.mat''
            in bind (write_file output_filename (MatArrays mat_df))
                 (\<lambda>_. print (''Saved file '' @ output_filename @ '' successfully. Load in matlab.'')))
         else if output_type = ''.pickle'' then
           (let output_filename = output_name @ ''.pickle''
            in bind (write_file output_filename (PickledBundle out_df))
                 (\<lambda>_. print ([CHR 0x0A] @ ''Saved file '' @ output_filename
                              @ '' successfully. Serialized as a dictionary of dataframes.'')))
         else ok ())"

section \<open>Credentials\<close>

text \<open>
  \<^verbatim>\<open>
  def loadInfluxClient(pickle_path):
      if os.path.isfile(pickle_path):
          with open(pickle_path, "rb") as f:
              influx_dict = pickle.load(f)
              client = influxdb_client.InfluxDBClient(
                  url = influx_dict["idb_url"],
                  token = influx_dict["idb_token"],
                  org = influx_dict["idb_org"],
                  timeout = 100000_000
              )
              query_api = client.query_api()
              return client,query_api
      else:
          print("InfluxDB credentials file not found. Run influxdb-setup.py to generate one.")
          exit(1)
  \<close>
  The file system maps a path to what it names. \<open>pickle.load\<close> is external and taken
  as a parameter: it turns the bytes \<open>'b\<close> of a file into an object or raises. The
  client is the record of the arguments it is constructed from.
\<close>

datatype 'b fs_entry = Directory | RegularFile 'b

type_synonym 'b filesystem = "string \<Rightarrow> 'b fs_entry option"

fun isfile :: "'b filesystem \<Rightarrow> string \<Rightarrow> bool" where
  "isfile fs path = (case fs path of Some (RegularFile b) \<Rightarrow> True | _ \<Rightarrow> False)"

datatype pyobj = PDict "(string \<times> string) list" | PNotSubscriptable

fun dict_getitem :: "pyobj \<Rightarrow> string \<Rightarrow> error + string" where
  "dict_getitem (PDict kvs) k = (case map_of kvs k of None \<Rightarrow> Inl (KeyError [k]) | Some v \<Rightarrow> Inr v)"
| "dict_getitem PNotSubscriptable k = Inl TypeError"

record influxdb_client =
  url :: string
  token :: string
  org :: string
  timeout :: int

datatype query_api = QueryApi influxdb_client

definition not_found_message :: string where
  "not_found_message =
     ''InfluxDB credentials file not found. Run influxdb-setup.py to generate one.''"

text \<open>\<open>open(path, "rb")\<close>: the bytes of a regular file.\<close>

fun open_rb :: "'b filesystem \<Rightarrow> string \<Rightarrow> error + 'b" where
  "open_rb fs path =
     (case fs path of
        None \<Rightarrow> Inl FileNotFoundError
      | Some Directory \<Rightarrow> Inl IsADirectoryError
      | Some (RegularFile f) \<Rightarrow> Inr f)"

definition loadInfluxClient ::
  "('b \<Rightarrow> error + pyobj) \<Rightarrow> 'b filesystem \<Rightarrow> string \<Rightarrow> ('v, influxdb_client \<times> query_api) result" where
  "loadInfluxClient pickle_load fs pickle_path =
     (if isfile fs pickle_path
      then bind (lift (open_rb fs pickle_path)) (\<lambda>f.
           bind (lift (pickle_load f)) (\<lambda>influx_dict.
           bind (lift (dict_getitem influx_dict ''idb_url'')) (\<lambda>u.
           bind (lift (dict_getitem influx_dict ''idb_token'')) (\<lambda>t.
           bind (lift (dict_getitem influx_dict ''idb_org'')) (\<lambda>g.
           let client = \<lparr>url = u, token = t, org = g, timeout = 100000000\<rparr>;
               query_api = QueryApi client
           in ok (client, query_api))))))
      else bind (print not_found_message) (\<lambda>_. lift (Inl (SystemExit 1))))"

section \<open>Query Builder: time range and query text\<close>

text \<open>
  The command-line arguments (\<open>--box-id\<close> and \<open>--sensor-id\<close> are optional).
\<close>

record args =
  start_time :: string
  end_time :: string
  output_file :: string
  box_id :: "string option"
  sensor_id :: "string option"
  bucket :: string
  input_zone :: string
  output_zone :: string
  creds :: string

text \<open>
  A \<open>datetime\<close> is naive (wall-clock time only, counted in microseconds from
  1970-01-01T00:00:00) or aware (wall-clock time and its UTC offset, in microseconds).
  Its wall-clock time lies between \<open>datetime.min\<close> (0001-01-01T00:00:00) and
  \<open>datetime.max\<close> (9999-12-31T23:59:59.999999); arithmetic that leaves this range
  raises OverflowError.
\<close>

definition datetime_min :: int where
  "datetime_min = - 62135596800000000"

definition datetime_max :: int where
  "datetime_max = 253402300799999999"

record aware =
  wall :: int
  utcoffset :: int

datatype datetime = Naive int | Aware aware

text \<open>
  A pytz zone, as \<open>localize\<close> uses it: the UTC offset it gives a wall-clock time, or
  the exception it raises (a zone with transitions shifts the time by a day while it
  looks the offset up, which overflows at the ends of the datetime range).
\<close>

type_synonym pytz_zone = "int \<Rightarrow> error + int"

text \<open>
  The library functions whose results depend on the zone database or on a text
  format are parameters: \<open>pytz.timezone\<close> (raises on an unknown name),
  \<open>datetime.fromisoformat\<close> (raises on a malformed string) and \<open>isoformat\<close> of a
  naive datetime.
\<close>

record library =
  pytz_timezone :: "string \<Rightarrow> error + pytz_zone"
  fromisoformat :: "string \<Rightarrow> error + datetime"
  isoformat :: "int \<Rightarrow> string"

text \<open>\<open>zone.localize(dt)\<close>: ValueError when \<open>dt\<close> already has a zone.\<close>

fun localize :: "pytz_zone \<Rightarrow> datetime \<Rightarrow> error + aware" where
  "localize z (Naive w) =
     (case z w of Inl e \<Rightarrow> Inl e | Inr off \<Rightarrow> Inr \<lparr>wall = w, utcoffset = off\<rparr>)"
| "localize z (Aware a) = Inl ValueError"

text \<open>
  \<open>dt.astimezone(datetime.timezone.utc)\<close>: the same instant, at offset 0. The UTC
  wall-clock time is computed as \<open>dt - offset\<close>, which raises OverflowError when it
  leaves the datetime range.
\<close>

definition astimezone_utc :: "aware \<Rightarrow> error + aware" where
  "astimezone_utc a =
     (let u = wall a - utcoffset a
      in if datetime_min \<le> u \<and> u \<le> datetime_max then Inr \<lparr>wall = u, utcoffset = 0\<rparr>
         else Inl OverflowError)"

text \<open>\<open>dt.replace(tzinfo=None)\<close>: the wall-clock time alone.\<close>

definition replace_tzinfo_None :: "aware \<Rightarrow> int" where
  "replace_tzinfo_None a = wall a"

text \<open>
  \<^verbatim>\<open>
  start_time = datetime.datetime.fromisoformat(args.start_time)
  start_time = input_tz.localize(start_time)
  start_time = start_time.astimezone(datetime.timezone.utc)
  start_time = start_time.replace(tzinfo=None)
  \<close>
\<close>

definition to_naive_utc :: "library \<Rightarrow> pytz_zone \<Rightarrow> string \<Rightarrow> error + int" where
  "to_naive_utc lib input_tz time_str =
     ebind (fromisoformat lib time_str) (\<lambda>t0.
     ebind (localize input_tz t0) (\<lambda>t1.
     ebind (astimezone_utc t1) (\<lambda>t2.
     let t3 = replace_tzinfo_None t2
     in Inr t3)))"

abbreviation NL :: char where
  "NL \<equiv> CHR 0x0A"

abbreviation TAB :: char where
  "TAB \<equiv> CHR 0x09"

text \<open>
  \<^verbatim>\<open>
  idb_query = f'''from(bucket: "{args.bucket}")
          |> range(start: {start_time.isoformat()}Z, stop: {end_time.isoformat()}Z)\n'''
  if box_filters:
      idb_query += f'\t{box_filters}\n'
  if sensor_filters:
      idb_query += f'\t{sensor_filters}\n'
  idb_query += '''\t|> drop(columns: ["_start", "_stop"])
          |> pivot(rowKey:["_time"], columnKey: ["_field"], valueColumn: "_value")'''
  \<close>
\<close>

definition range_stage :: "string \<Rightarrow> string \<Rightarrow> string" where
  "range_stage start_iso end_iso =
     ''|> range(start: '' @ start_iso @ ''Z, stop: '' @ end_iso @ ''Z)''"

definition query_tail :: string where
  "query_tail =
     [TAB] @ ''|> drop(columns: ['' @ [DQ] @ ''_start'' @ [DQ] @ '', '' @ [DQ] @ ''_stop'' @ [DQ] @ ''])''
     @ [NL] @ ''        |> pivot(rowKey:['' @ [DQ] @ ''_time'' @ [DQ] @ ''], columnKey: [''
     @ [DQ] @ ''_field'' @ [DQ] @ ''], valueColumn: '' @ [DQ] @ ''_value'' @ [DQ] @ '')''"

definition build_query :: "library \<Rightarrow> args \<Rightarrow> int \<Rightarrow> int \<Rightarrow> string" where
  "build_query lib a start_utc end_utc =
     (let box_filters = createFluxFilters ''_measurement'' (box_id a);
          sensor_filters = createFluxFilters ''id'' (sensor_id a);
          idb_query = ''from(bucket: '' @ [DQ] @ bucket a @ [DQ] @ '')'' @ [NL] @ ''        ''
                      @ range_stage (isoformat lib start_utc) (isoformat lib end_utc) @ [NL];
          idb_query = (if box_filters \<noteq> [] then idb_query @ [TAB] @ box_filters @ [NL]
                       else idb_query);
          idb_query = (if sensor_filters \<noteq> [] then idb_query @ [TAB] @ sensor_filters @ [NL]
                       else idb_query)
      in idb_query @ query_tail)"

text \<open>
  The part of \<open>main\<close> from the zone lookups to the finished query text: the first
  exception raised ends it.
\<close>

definition main_query :: "library \<Rightarrow> args \<Rightarrow> error + string" where
  "main_query lib a =
     ebind (pytz_timezone lib (input_zone a)) (\<lambda>input_tz.
     ebind (pytz_timezone lib (output_zone a)) (\<lambda>output_tz.
     ebind (to_naive_utc lib input_tz (start_time a)) (\<lambda>start_utc.
     ebind (to_naive_utc lib input_tz (end_time a)) (\<lambda>end_utc.
     Inr (build_query lib a start_utc end_utc)))))"

section \<open>Float values\<close>




section \<open>Auxiliary definitions for the statements\<close>

text \<open>
  The table the normalizer returns for a raw table whose \<open>_time\<close> column holds the
  instants \<open>xs\<close>: the removed labels filtered out, \<open>_time\<close> renamed, and the time
  column replaced by the quotients of the output-zone wall-clock nanoseconds by one
  second.
\<close>

definition normalized :: "tz \<Rightarrow> 'v dataframe \<Rightarrow> int list \<Rightarrow> 'v dataframe" where
  "normalized output_tz df xs =
     setitem (rename_column (filter (\<lambda>col. fst col \<notin> set removed_labels) df) ''_time'' ''time'')
       ''time'' (FloatQuotCol (map (\<lambda>t. t + output_tz t) xs) 1000000000)"

text \<open>The dictionary assignments of the processing loop, on their own.\<close>

fun assign_all :: "'v output_bundle \<Rightarrow> (string \<times> 'v dataframe) list \<Rightarrow> 'v output_bundle" where
  "assign_all out_df [] = out_df"
| "assign_all out_df (p # ps) = assign_all (AList.update (fst p) (snd p) out_df) ps"

text \<open>
  Example inputs. \<open>box7_table\<close> has two rows of box \<open>box7\<close>, sensor \<open>P1\<close>, at 10 and
  11 seconds after the epoch, with an \<open>err\<close> column that holds the single value 0;
  \<open>box7_later\<close> is a second table of the same box and sensor; \<open>one_ns_table\<close> has one
  row, one nanosecond after the epoch; \<open>no_rows\<close> has the columns and no row. The zone \<open>utc\<close> has offset 0, and \<open>no_format\<close> stands for the
  formatting of values that are not strings.
\<close>

definition utc :: tz where
  "utc = (\<lambda>t. 0)"

definition no_format :: "int pyval \<Rightarrow> string" where
  "no_format = (\<lambda>v. [])"

definition box7_table :: "int dataframe" where
  "box7_table =
     [(''result'', StrCol [''_result'', ''_result'']),
      (''table'', ValCol [0, 0]),
      (''_time'', DatetimeTZCol utc [10000000000, 11000000000]),
      (''_measurement'', StrCol [''box7'', ''box7'']),
      (''id'', StrCol [''P1'', ''P1'']),
      (''err'', ValCol [0, 0]),
      (''value'', ValCol [1013, 1014])]"

definition box7_later :: "int dataframe" where
  "box7_later =
     [(''result'', StrCol [''_result'']),
      (''table'', ValCol [1]),
      (''_time'', DatetimeTZCol utc [12000000000]),
      (''_measurement'', StrCol [''box7'']),
      (''id'', StrCol [''P1'']),
      (''value'', ValCol [1015])]"


definition no_rows :: "int dataframe" where
  "no_rows =
     [(''result'', StrCol []),
      (''table'', ValCol []),
      (''_time'', DatetimeTZCol utc []),
      (''_measurement'', StrCol []),
      (''id'', StrCol []),
      (''value'', ValCol [])]"

text \<open>
  Sample values of the external functions, for concrete runs: the zones \<open>Etc/UTC\<close>
  and \<open>Etc/GMT+5\<close> (five hours behind UTC), three time strings with the microsecond
  counts they parse to and the ISO texts of the UTC times the first two become (the
  third, taken five hours behind UTC, has no UTC time within the datetime range); a
  file system with one credentials file, whose bytes are stood for by the record it
  unpickles to.
\<close>

definition sample_library :: library where
  "sample_library =
     \<lparr>pytz_timezone = (\<lambda>name.
        if name = ''Etc/UTC'' then Inr (\<lambda>w. Inr 0)
        else if name = ''Etc/GMT+5'' then Inr (\<lambda>w. Inr (- 18000000000))
        else Inl UnknownTimeZoneError),
      fromisoformat = (\<lambda>s.
        if s = ''1970-01-02T00:00:00'' then Inr (Naive 86400000000)
        else if s = ''1970-01-02T01:00:00'' then Inr (Naive 90000000000)
        else if s = ''9999-12-31T23:00:00'' then Inr (Naive 253402297200000000)
        else Inl ValueError),
      isoformat = (\<lambda>w.
        if w = 104400000000 then ''1970-01-02T05:00:00''
        else if w = 108000000000 then ''1970-01-02T06:00:00''
        else [])\<rparr>"

definition sample_args :: args where
  "sample_args =
     \<lparr>start_time = ''1970-01-02T00:00:00'',
      end_time = ''1970-01-02T01:00:00'',
      output_file = ''data.txt'',
      box_id = Some ''box7'',
      sensor_id = None,
      bucket = ''parosbox'',
      input_zone = ''Etc/GMT+5'',
      output_zone = ''Etc/UTC'',
      creds = ''influx-creds.pickle''\<rparr>"

definition late_args :: args where
  "late_args = sample_args\<lparr>end_time := ''9999-12-31T23:00:00''\<rparr>"

definition sample_record :: pyobj where
  "sample_record =
     PDict [(''idb_url'', ''http://localhost:8086''), (''idb_org'', ''paros''),
            (''idb_token'', ''secret'')]"

definition sample_fs :: "pyobj filesystem" where
  "sample_fs =
     (\<lambda>path. if path = ''influx-creds.pickle'' then Some (RegularFile sample_record)
             else if path = ''data'' then Some Directory
             else None)"

definition sample_pickle_load :: "pyobj \<Rightarrow> error + pyobj" where
  "sample_pickle_load = (\<lambda>f. Inr f)"

section \<open>Properties of the filter clauses\<close>

lemma split_on_nonempty: "split_on c s \<noteq> []"
  by (induction s) (auto split: list.splits)

lemma split_on_no_sep: "c \<notin> set s \<Longrightarrow> split_on c s = [s]"
  by (induction s) auto

lemma split_on_length: "length (split_on c s) = Suc (length (filter (\<lambda>x. x = c) s))"
  by (induction s) (auto split: list.splits simp: split_on_nonempty)

lemma split_on_pieces: "\<forall>w \<in> set (split_on c s). c \<notin> set w"
  by (induction s) (auto split: list.splits)

lemma join_cons: "ps \<noteq> [] \<Longrightarrow> join sep (p # ps) = p @ sep @ join sep ps"
  by (cases ps) auto

lemma split_on_join: "join [c] (split_on c s) = s"
proof (induction s)
  case Nil
  show ?case by simp
next
  case (Cons x xs)
  obtain w ws where sp: "split_on c xs = w # ws"
    using split_on_nonempty [of c xs] by (cases "split_on c xs") auto
  show ?case
  proof (cases "x = c")
    case True
    then show ?thesis using Cons.IH by (simp add: join_cons split_on_nonempty)
  next
    case False
    then show ?thesis using Cons.IH sp by (cases ws) auto
  qed
qed

lemma filter_loop_map:
  "filter_loop col vs acc = acc @ map (equality_predicate col) vs"
  by (induction vs arbitrary: acc) auto

lemma in_list_values:
  "(if CHR '','' \<in> set s then split_on (CHR '','') s else [s]) = comma_values s"
  by (simp add: comma_values_def split_on_no_sep)

lemma createFluxFilters_Some:
  "createFluxFilters col (Some s) =
     ''|> filter(fn: (r) => '' @ join '' or '' (map (equality_predicate col) (comma_values s)) @ '')''"
proof -
  have ne: "comma_values s \<noteq> []"
    by (simp add: comma_values_def split_on_nonempty)
  show ?thesis
    unfolding createFluxFilters_def option.case in_list_values filter_loop_map
    using ne by (simp add: Let_def)
qed

section \<open>Properties of the data frame operations\<close>

lemma filter_label_unique:
  "distinct (map fst df) \<Longrightarrow> map_of df c = Some s \<Longrightarrow> filter (\<lambda>col. fst col = c) df = [(c, s)]"
proof (induction df)
  case Nil
  then show ?case by simp
next
  case (Cons col df)
  show ?case
  proof (cases "fst col = c")
    case True
    then have "c \<notin> fst ` set df" using Cons.prems(1) by auto
    then have "filter (\<lambda>col. fst col = c) df = []" by (auto simp: filter_empty_conv)
    moreover have "col = (c, s)" using True Cons.prems(2) by (cases col) auto
    ultimately show ?thesis by simp
  next
    case False
    then show ?thesis using Cons by (cases col) auto
  qed
qed

lemma getitem_unique:
  "distinct (columns df) \<Longrightarrow> map_of df c = Some s \<Longrightarrow> getitem df c = Inr (Series s)"
  by (simp add: getitem_def columns_def filter_label_unique)

lemma getitem_absent:
  "c \<notin> set (columns df) \<Longrightarrow> getitem df c = Inl (KeyError [c])"
proof -
  assume "c \<notin> set (columns df)"
  then have "filter (\<lambda>col. fst col = c) df = []"
    by (auto simp: filter_empty_conv columns_def)
  then show ?thesis by (simp add: getitem_def)
qed

lemma replace_labels:
  "map fst (map (\<lambda>col. if fst col = c then (c, s) else col) df) = map fst df"
  by (induction df) auto

lemma replace_others:
  "filter (\<lambda>col. fst col \<noteq> c) (map (\<lambda>col. if fst col = c then (c, s) else col) df) =
   filter (\<lambda>col. fst col \<noteq> c) df"
  by (induction df) auto

lemma replace_twice:
  "map (\<lambda>col. if fst col = c then (c, s') else col)
     (map (\<lambda>col. if fst col = c then (c, s) else col) df) =
   map (\<lambda>col. if fst col = c then (c, s') else col) df"
  by (induction df) auto

lemma columns_setitem:
  "c \<in> set (columns df) \<Longrightarrow> columns (setitem df c s) = columns df"
  by (simp add: setitem_def columns_def replace_labels)

lemma map_of_setitem:
  "c \<in> set (columns df) \<Longrightarrow> map_of (setitem df c s) c = Some s"
  by (induction df) (auto simp: setitem_def columns_def)

lemma setitem_others:
  "filter (\<lambda>col. fst col \<noteq> c) (setitem df c s) = filter (\<lambda>col. fst col \<noteq> c) df"
  by (simp add: setitem_def replace_others)

lemma setitem_twice:
  "c \<in> set (columns df) \<Longrightarrow> setitem (setitem df c s) c s' = setitem df c s'"
proof -
  assume c: "c \<in> set (columns df)"
  then have "c \<in> set (columns (setitem df c s))" by (simp add: columns_setitem)
  then show ?thesis using c by (simp add: setitem_def replace_twice)
qed

lemma columns_rename:
  "columns (rename_column df old new) = map (\<lambda>l. if l = old then new else l) (columns df)"
  by (induction df) (auto simp: rename_column_def columns_def)

lemma distinct_rename:
  assumes "distinct (columns df)" and "new \<notin> set (columns df)"
  shows "distinct (columns (rename_column df old new))"
proof -
  have "inj_on (\<lambda>l. if l = old then new else l) (set (columns df))"
    using assms(2) by (auto simp: inj_on_def split: if_splits)
  then show ?thesis using assms(1) by (simp add: columns_rename distinct_map)
qed

lemma map_of_rename:
  "new \<notin> set (columns df) \<Longrightarrow> map_of (rename_column df old new) new = map_of df old"
  by (induction df) (auto simp: rename_column_def columns_def)

lemma rename_others:
  "new \<notin> set (columns df) \<Longrightarrow>
   filter (\<lambda>col. fst col \<noteq> new) (rename_column df old new) = filter (\<lambda>col. fst col \<noteq> old) df"
  by (induction df) (auto simp: rename_column_def columns_def)

lemma convert_time_ok:
  assumes d: "distinct (columns df)"
    and t: "map_of df ''_time'' = Some (DatetimeTZCol z xs)"
    and n: "''time'' \<notin> set (columns df)"
  shows "convert_time output_tz df =
           Inr (setitem (rename_column df ''_time'' ''time'') ''time''
                  (FloatQuotCol (map (\<lambda>t. t + output_tz t) xs) 1000000000))"
proof -
  let ?df1 = "rename_column df ''_time'' ''time''"
  have d1: "distinct (columns ?df1)" using d n by (rule distinct_rename)
  have m1: "map_of ?df1 ''time'' = Some (DatetimeTZCol z xs)" using n t by (simp add: map_of_rename)
  have in1: "''time'' \<in> set (columns ?df1)"
    using m1 by (auto simp: columns_def dest: map_of_SomeD intro: rev_image_eqI)
  have g1: "getitem ?df1 ''time'' = Inr (Series (DatetimeTZCol z xs))"
    using d1 m1 by (rule getitem_unique)
  have step: "\<And>s. getitem (setitem ?df1 ''time'' s) ''time'' = Inr (Series s)"
    by (rule getitem_unique) (simp_all add: columns_setitem in1 d1 map_of_setitem)
  show ?thesis
    unfolding convert_time_def Let_def
    by (simp add: g1 step ebind_def setitem_twice in1)
qed

lemma bind_lift_Inr: "bind (lift (Inr x)) f = f x"
  by (simp add: bind_def lift_def)

lemma bind_lift_Inl: "bind (lift (Inl e)) f = ([], Inl e)"
  by (simp add: bind_def lift_def)

lemma bind_events_Inr: "bind (evs, Inr x) f = (evs @ fst (f x), snd (f x))"
  by (simp add: bind_def)

lemma bind_events_Inl: "bind (evs, Inl e) f = (evs, Inl e)"
  by (simp add: bind_def)

lemma columns_filter:
  "columns (filter (\<lambda>col. P (fst col)) df) = filter P (columns df)"
  by (induction df) (auto simp: columns_def)

lemma map_of_filter_keep:
  "P c \<Longrightarrow> map_of (filter (\<lambda>col. P (fst col)) df) c = map_of df c"
  by (induction df) auto

lemma drop_columns_present:
  "set labels \<subseteq> set (columns df) \<Longrightarrow>
   drop_columns df labels = Inr (filter (\<lambda>col. fst col \<notin> set labels) df)"
proof -
  assume "set labels \<subseteq> set (columns df)"
  then have "filter (\<lambda>l. l \<notin> set (columns df)) labels = []"
    by (auto simp: filter_empty_conv)
  then show ?thesis by (simp add: drop_columns_def)
qed

lemma filter_absent_label:
  "c \<notin> set (columns df) \<Longrightarrow> filter (\<lambda>col. fst col \<noteq> c) df = df"
  by (induction df) (auto simp: columns_def)

lemma drop_baro_time_eq:
  "drop_baro_time df = Inr (filter (\<lambda>col. fst col \<noteq> ''baro_time'') df)"
  by (simp add: drop_baro_time_def drop_columns_present filter_absent_label)

lemma err_list_two: "length err_list = 2"
  by (simp add: err_list_def)

lemma drop_err_eq:
  "drop_err df =
     ((if ''err'' \<in> set (columns df) then [Print err_warning] else []),
      Inr (filter (\<lambda>col. fst col \<noteq> ''err'') df))"
  by (simp add: drop_err_def err_list_two bind_def print_def lift_def ok_def
      drop_columns_present filter_absent_label)

lemma map_of_in_columns: "map_of df c = Some s \<Longrightarrow> c \<in> set (columns df)"
  by (auto simp: columns_def dest!: map_of_SomeD intro: rev_image_eqI)

lemma raw_column_length:
  "raw_table df \<Longrightarrow> map_of df c = Some s \<Longrightarrow> slen s = nrows df"
  by (auto simp: raw_table_def list_all_iff dest!: map_of_SomeD)

lemma processInfluxDF_raw:
  assumes raw: "raw_table df" and ne: "0 < nrows df"
  shows "\<exists>m ms i is z xs.
           map_of df ''_measurement'' = Some (StrCol (m # ms))
         \<and> map_of df ''id'' = Some (StrCol (i # is))
         \<and> map_of df ''_time'' = Some (DatetimeTZCol z xs)
         \<and> processInfluxDF fmt df output_tz =
             ((if ''err'' \<in> set (columns df) then [Print err_warning] else []),
              Inr (m @ ''_'' @ i, normalized output_tz df xs))"
proof -
  have d: "distinct (columns df)" using raw by (simp add: raw_table_def)
  obtain bs where mb: "map_of df ''_measurement'' = Some (StrCol bs)"
    using raw by (auto simp: raw_table_def elim: is_str_col.elims)
  obtain js where mi: "map_of df ''id'' = Some (StrCol js)"
    using raw by (auto simp: raw_table_def elim: is_str_col.elims)
  obtain z xs where mt: "map_of df ''_time'' = Some (DatetimeTZCol z xs)"
    using raw by (auto simp: raw_table_def elim: is_tz_col.elims)
  have "length bs = nrows df" using raw_column_length [OF raw mb] by simp
  then obtain m ms where bs: "bs = m # ms" using ne by (cases bs) auto
  have "length js = nrows df" using raw_column_length [OF raw mi] by simp
  then obtain i "is" where js: "js = i # is" using ne by (cases js) auto
  have box: "ebind (getitem df ''_measurement'') iloc0 = Inr (Scalar (SStr m))"
    by (simp add: getitem_unique [OF d mb] ebind_def bs)
  have ident: "ebind (getitem df ''id'') iloc0 = Inr (Scalar (SStr i))"
    by (simp add: getitem_unique [OF d mi] ebind_def js)
  let ?four = "[''result'', ''table'', ''_measurement'', ''id'']"
  have "set ?four \<subseteq> set (columns df)"
    using raw map_of_in_columns [OF mb] map_of_in_columns [OF mi] by (simp add: raw_table_def)
  then have dropped: "drop_columns df ?four = Inr (filter (\<lambda>col. fst col \<notin> set ?four) df)"
    by (rule drop_columns_present)
  let ?kept = "filter (\<lambda>col. fst col \<notin> set removed_labels) df"
  have kept: "filter (\<lambda>col. fst col \<noteq> ''err'')
                (filter (\<lambda>col. fst col \<noteq> ''baro_time'') (filter (\<lambda>col. fst col \<notin> set ?four) df)) = ?kept"
    by (induction df) (auto simp: removed_labels_def)
  have err_in: "''err'' \<in> set (columns (filter (\<lambda>col. fst col \<noteq> ''baro_time'')
                  (filter (\<lambda>col. fst col \<notin> set ?four) df))) \<longleftrightarrow> ''err'' \<in> set (columns df)"
    by (auto simp: columns_def)
  have ck: "columns ?kept = filter (\<lambda>l. l \<notin> set removed_labels) (columns df)"
    by (rule columns_filter [of "\<lambda>l. l \<notin> set removed_labels"])
  have dk: "distinct (columns ?kept)" using d by (simp add: ck)
  have tk: "map_of ?kept ''_time'' = Some (DatetimeTZCol z xs)"
    using mt map_of_filter_keep [of "\<lambda>l. l \<notin> set removed_labels" "''_time''" df]
    by (simp add: removed_labels_def)
  have nk: "''time'' \<notin> set (columns ?kept)"
    using raw by (simp add: raw_table_def ck)
  have conv: "convert_time output_tz ?kept = Inr (normalized output_tz df xs)"
    unfolding normalized_def using dk tk nk by (rule convert_time_ok)
  have "processInfluxDF fmt df output_tz =
          ((if ''err'' \<in> set (columns df) then [Print err_warning] else []),
           Inr (m @ ''_'' @ i, normalized output_tz df xs))"
    unfolding processInfluxDF_def box ident dropped bind_lift_Inr Let_def
      drop_baro_time_eq drop_err_eq bind_events_Inr kept err_in conv
    by (simp add: ok_def)
  then show ?thesis using mb mi mt bs js by blast
qed

section \<open>Properties of the processing loop\<close>

lemma process_dataframes_step:
  "processInfluxDF fmt df tz = (evs, Inr (k, v)) \<Longrightarrow>
   process_dataframes fmt tz (df # dfs) acc =
     (evs @ fst (process_dataframes fmt tz dfs (AList.update k v acc)),
      snd (process_dataframes fmt tz dfs (AList.update k v acc)))"
  by (simp split: prod.splits)

lemma process_dataframes_Inr:
  "snd (process_dataframes fmt tz dfs acc) = Inr b \<Longrightarrow>
   \<exists>ps. map (\<lambda>df. snd (processInfluxDF fmt df tz)) dfs = map Inr ps \<and> b = assign_all acc ps"
proof (induction dfs arbitrary: acc)
  case Nil
  then show ?case by (simp add: ok_def)
next
  case (Cons df dfs)
  obtain evs r where p: "processInfluxDF fmt df tz = (evs, r)" by (cases "processInfluxDF fmt df tz")
  show ?case
  proof (cases r)
    case (Inl e)
    then show ?thesis using Cons.prems p by simp
  next
    case (Inr q)
    obtain k v where q: "q = (k, v)" by (cases q)
    have "snd (process_dataframes fmt tz dfs (AList.update k v acc)) = Inr b"
      using Cons.prems p Inr q by (simp split: prod.splits)
    from Cons.IH [OF this] obtain ps where
      ps: "map (\<lambda>df. snd (processInfluxDF fmt df tz)) dfs = map Inr ps"
      "b = assign_all (AList.update k v acc) ps" by blast
    have "map (\<lambda>df. snd (processInfluxDF fmt df tz)) (df # dfs) = map Inr ((k, v) # ps)"
      using ps(1) p Inr q by simp
    moreover have "b = assign_all acc ((k, v) # ps)" using ps(2) by simp
    ultimately show ?thesis by blast
  qed
qed

lemma process_dataframes_events:
  "snd (process_dataframes fmt tz dfs acc) = Inr b \<Longrightarrow>
   fst (process_dataframes fmt tz dfs acc) = concat (map (\<lambda>df. fst (processInfluxDF fmt df tz)) dfs)"
proof (induction dfs arbitrary: acc)
  case Nil
  then show ?case by (simp add: ok_def)
next
  case (Cons df dfs)
  obtain evs r where p: "processInfluxDF fmt df tz = (evs, r)" by (cases "processInfluxDF fmt df tz")
  show ?case
  proof (cases r)
    case (Inl e)
    then show ?thesis using Cons.prems p by simp
  next
    case (Inr q)
    obtain k v where q: "q = (k, v)" by (cases q)
    have step: "process_dataframes fmt tz (df # dfs) acc =
        (evs @ fst (process_dataframes fmt tz dfs (AList.update k v acc)),
         snd (process_dataframes fmt tz dfs (AList.update k v acc)))"
      using p Inr q by (intro process_dataframes_step) simp
    then have "snd (process_dataframes fmt tz dfs (AList.update k v acc)) = Inr b"
      using Cons.prems by simp
    from Cons.IH [OF this]
    have "fst (process_dataframes fmt tz (df # dfs) acc) =
            evs @ concat (map (\<lambda>df. fst (processInfluxDF fmt df tz)) dfs)"
      by (simp only: step fst_conv)
    moreover have "concat (map (\<lambda>df. fst (processInfluxDF fmt df tz)) (df # dfs)) =
            evs @ concat (map (\<lambda>df. fst (processInfluxDF fmt df tz)) dfs)"
      using p by simp
    ultimately show ?thesis by (simp only:)
  qed
qed

lemma map_of_assign_all:
  "map_of (assign_all acc ps) = map_of acc ++ map_of (rev ps)"
  by (induction ps arbitrary: acc) (auto simp: update_conv' map_add_def fun_eq_iff split: option.splits)

lemma distinct_assign_all:
  "distinct (map fst acc) \<Longrightarrow> distinct (map fst (assign_all acc ps))"
  by (induction ps arbitrary: acc) (auto simp: distinct_update)

lemma keys_assign_all:
  "fst ` set (assign_all acc ps) = fst ` set acc \<union> fst ` set ps"
  by (induction ps arbitrary: acc) (auto simp: dom_update)

lemma map_of_rev_last:
  assumes j: "j < length ps" and at: "ps ! j = (k, v)"
    and later: "\<forall>i. j < i \<and> i < length ps \<longrightarrow> fst (ps ! i) \<noteq> k"
  shows "map_of (rev ps) k = Some v"
proof -
  have split: "ps = take j ps @ (k, v) # drop (Suc j) ps"
    using j at by (metis id_take_nth_drop)
  have "k \<notin> fst ` set (drop (Suc j) ps)"
  proof
    assume "k \<in> fst ` set (drop (Suc j) ps)"
    then obtain p where "p \<in> set (drop (Suc j) ps)" "fst p = k" by auto
    then obtain n where "n < length (drop (Suc j) ps)" "drop (Suc j) ps ! n = p"
      by (auto simp: in_set_conv_nth)
    then have "j < Suc j + n \<and> Suc j + n < length ps" "ps ! (Suc j + n) = p" by auto
    with later \<open>fst p = k\<close> show False by blast
  qed
  then have none: "map_of (rev (drop (Suc j) ps)) k = None"
    by (simp add: map_of_eq_None_iff)
  have "rev ps = rev (drop (Suc j) ps) @ (k, v) # rev (take j ps)"
    by (subst split) simp
  then show ?thesis using none by (simp add: map_add_def)
qed

section \<open>The Result Normalizer on raw tables\<close>

lemma shead_empty: "slen s = 0 \<Longrightarrow> shead s = None"
  by (cases s) auto

lemma iloc0_no_rows:
  assumes "\<forall>col \<in> set df. slen (snd col) = 0"
  shows "\<exists>e. ebind (getitem df c) iloc0 = Inl e"
proof (cases "filter (\<lambda>col. fst col = c) df")
  case Nil
  then show ?thesis by (simp add: getitem_def ebind_def)
next
  case (Cons col cols)
  then have "col \<in> set (filter (\<lambda>col. fst col = c) df)" by simp
  then have "col \<in> set df" by simp
  then have h: "shead (snd col) = None" using assms by (simp add: shead_empty)
  show ?thesis
  proof (cases cols)
    case Nil
    then show ?thesis using Cons h by (simp add: getitem_def ebind_def)
  next
    case (Cons col' cols')
    then show ?thesis using \<open>filter (\<lambda>col. fst col = c) df = col # cols\<close> h
      by (cases col) (simp add: getitem_def ebind_def)
  qed
qed

text \<open>
  C9: on a table with zero rows the normalizer raises instead of returning, and it has
  printed nothing by then: the read of the first row's measurement is unguarded.
\<close>
theorem empty_table_fails:
  assumes "\<forall>col \<in> set df. slen (snd col) = 0"
  shows "\<exists>e. processInfluxDF fmt df output_tz = ([], Inl e)"
proof -
  obtain e where "ebind (getitem df ''_measurement'') iloc0 = Inl e"
    using iloc0_no_rows [OF assms] by blast
  then show ?thesis by (simp add: processInfluxDF_def bind_lift_Inl)
qed

theorem empty_table_fails_witness:
  "list_all (\<lambda>col. slen (snd col) = 0) no_rows
   \<and> processInfluxDF no_format no_rows utc = ([], Inl IndexError)"
proof -
  have h: "\<forall>col \<in> set no_rows. slen (snd col) = 0" by (simp add: no_rows_def)
  have "ebind (getitem no_rows ''_measurement'') iloc0 = Inl IndexError"
    by (simp add: no_rows_def getitem_def ebind_def)
  then show ?thesis using h empty_table_fails [OF h, of no_format utc]
    by (simp add: processInfluxDF_def bind_lift_Inl list_all_iff)
qed

text \<open>
  C5: for every non-empty raw table the normalizer returns the identifier made of the
  first row's measurement, an underscore and the first row's id.
\<close>
theorem identifier_of_first_row:
  assumes "raw_table df" and "0 < nrows df"
  shows "\<exists>m ms i is out.
           map_of df ''_measurement'' = Some (StrCol (m # ms))
         \<and> map_of df ''id'' = Some (StrCol (i # is))
         \<and> snd (processInfluxDF fmt df output_tz) = Inr (m @ ''_'' @ i, out)"
  using processInfluxDF_raw [OF assms, of fmt output_tz] by fastforce

lemma box7_table_raw: "raw_table box7_table \<and> 0 < nrows box7_table"
  by (simp add: raw_table_def box7_table_def columns_def nrows_def)

theorem identifier_of_first_row_witness:
  "raw_table box7_table \<and> 0 < nrows box7_table
   \<and> (\<exists>out. snd (processInfluxDF no_format box7_table utc) = Inr (''box7_P1'', out))"
proof -
  have r: "raw_table box7_table" and n: "0 < nrows box7_table"
    using box7_table_raw by simp_all
  obtain m ms i "is" out where
    "map_of box7_table ''_measurement'' = Some (StrCol (m # ms))"
    "map_of box7_table ''id'' = Some (StrCol (i # is))"
    "snd (processInfluxDF no_format box7_table utc) = Inr (m @ ''_'' @ i, out)"
    using identifier_of_first_row [OF r n, of no_format utc] by blast
  then show ?thesis using r n by (auto simp: box7_table_def)
qed

text \<open>
  C6: for every non-empty raw table the returned table has none of the columns
  \<open>result\<close>, \<open>table\<close>, \<open>_measurement\<close>, \<open>id\<close>, \<open>baro_time\<close>, \<open>err\<close>, \<open>_time\<close>; it has
  the column \<open>time\<close> (once); and its other columns are the other columns of the
  input, with their contents and in their order.
\<close>
theorem normalized_table_columns:
  assumes "raw_table df" and "0 < nrows df"
  shows "\<exists>ident out.
           snd (processInfluxDF fmt df output_tz) = Inr (ident, out)
         \<and> set (columns out) \<inter> set (''_time'' # removed_labels) = {}
         \<and> ''time'' \<in> set (columns out)
         \<and> distinct (columns out)
         \<and> filter (\<lambda>col. fst col \<noteq> ''time'') out =
             filter (\<lambda>col. fst col \<notin> set (''_time'' # removed_labels)) df"
proof -
  obtain m ms i "is" z xs where
    mt: "map_of df ''_time'' = Some (DatetimeTZCol z xs)" and
    res: "processInfluxDF fmt df output_tz =
            ((if ''err'' \<in> set (columns df) then [Print err_warning] else []),
             Inr (m @ ''_'' @ i, normalized output_tz df xs))"
    using processInfluxDF_raw [OF assms, of fmt output_tz] by blast
  let ?kept = "filter (\<lambda>col. fst col \<notin> set removed_labels) df"
  let ?ren = "rename_column ?kept ''_time'' ''time''"
  let ?out = "normalized output_tz df xs"
  have d: "distinct (columns df)" and nt: "''time'' \<notin> set (columns df)"
    using assms(1) by (simp_all add: raw_table_def)
  have ck: "columns ?kept = filter (\<lambda>l. l \<notin> set removed_labels) (columns df)"
    by (rule columns_filter [of "\<lambda>l. l \<notin> set removed_labels"])
  have nk: "''time'' \<notin> set (columns ?kept)" using nt by (simp add: ck)
  have tk: "''_time'' \<in> set (columns ?kept)"
    using map_of_in_columns [OF mt] unfolding ck by (simp add: removed_labels_def)
  have cr: "columns ?ren = map (\<lambda>l. if l = ''_time'' then ''time'' else l) (columns ?kept)"
    by (rule columns_rename)
  have tr: "''time'' \<in> set (columns ?ren)" using tk by (auto simp: cr)
  have co: "columns ?out = columns ?ren"
    unfolding normalized_def using tr by (rule columns_setitem)
  have c1: "set (columns ?out) \<inter> set (''_time'' # removed_labels) = {}"
    unfolding co cr ck by (auto simp: removed_labels_def)
  have c2: "''time'' \<in> set (columns ?out)" using tr by (simp add: co)
  have c3: "distinct (columns ?out)"
    unfolding co using d nk by (intro distinct_rename) (simp_all add: ck)
  have "filter (\<lambda>col. fst col \<noteq> ''time'') ?out = filter (\<lambda>col. fst col \<noteq> ''time'') ?ren"
    unfolding normalized_def by (rule setitem_others)
  also have "\<dots> = filter (\<lambda>col. fst col \<noteq> ''_time'') ?kept"
    using nk by (rule rename_others)
  also have "\<dots> = filter (\<lambda>col. fst col \<notin> set (''_time'' # removed_labels)) df"
    by (induction df) auto
  finally have c4: "filter (\<lambda>col. fst col \<noteq> ''time'') ?out =
      filter (\<lambda>col. fst col \<notin> set (''_time'' # removed_labels)) df" .
  show ?thesis using res c1 c2 c3 c4 by auto
qed

theorem normalized_table_columns_witness:
  "raw_table box7_table \<and> 0 < nrows box7_table
   \<and> (\<exists>ident out.
         snd (processInfluxDF no_format box7_table utc) = Inr (ident, out)
       \<and> columns out = [''time'', ''value'']
       \<and> filter (\<lambda>col. fst col \<noteq> ''time'') out = [(''value'', ValCol [1013, 1014])])"
proof -
  have r: "raw_table box7_table" and n: "0 < nrows box7_table"
    using box7_table_raw by simp_all
  obtain ident out where
    o: "snd (processInfluxDF no_format box7_table utc) = Inr (ident, out)" and
    "set (columns out) \<inter> set (''_time'' # removed_labels) = {}" and
    t: "''time'' \<in> set (columns out)" and
    dd: "distinct (columns out)" and
    f: "filter (\<lambda>col. fst col \<noteq> ''time'') out =
          filter (\<lambda>col. fst col \<notin> set (''_time'' # removed_labels)) box7_table"
    using normalized_table_columns [OF r n, of no_format utc] by blast
  have v: "filter (\<lambda>col. fst col \<noteq> ''time'') out = [(''value'', ValCol [1013, 1014])]"
    using f by (simp add: box7_table_def removed_labels_def)
  have "snd (processInfluxDF no_format box7_table utc) =
          Inr (''box7_P1'', [(''time'', FloatQuotCol [10000000000, 11000000000] 1000000000),
                             (''value'', ValCol [1013, 1014])])"
    by (simp add: processInfluxDF_def box7_table_def bind_def lift_def ebind_def getitem_def
        ok_def drop_columns_def columns_def drop_baro_time_def drop_err_def err_list_def
        print_def convert_time_def rename_column_def setitem_def utc_def)
  then have "columns out = [''time'', ''value'']" using o by (auto simp: columns_def)
  then show ?thesis using r n o v by blast
qed

text \<open>
  C1 (the warning is emitted if and only if the \<open>err\<close> column holds more than one
  distinct value). The code tests the distinct characters of the literal \<open>"err"\<close>, of
  which there are always two, so the warning is printed for every table with an
  \<open>err\<close> column: here for \<open>box7_table\<close>, whose \<open>err\<close> column holds the single value 0.
\<close>
theorem err_warning_single_value:
  "map_of box7_table ''err'' = Some (ValCol [0, 0])
   \<and> fst (processInfluxDF no_format box7_table utc) = [Print err_warning]"
  by (simp add: processInfluxDF_def box7_table_def bind_def lift_def ebind_def getitem_def
      ok_def drop_columns_def columns_def drop_baro_time_def drop_err_def err_list_def
      print_def convert_time_def rename_column_def setitem_def utc_def)

section \<open>Filter clauses and the processing loop: main results\<close>

text \<open>
  C2, as stated, fails for the empty string: the input \<open>""\<close> is not omitted but
  gives a clause with one predicate, for the empty value.
\<close>
theorem empty_filter_counterexample:
  "createFluxFilters ''id'' (Some []) =
     ''|> filter(fn: (r) => r['' @ [DQ] @ ''id'' @ [DQ] @ ''] == '' @ [DQ, DQ] @ '')''
   \<and> createFluxFilters ''id'' (Some []) \<noteq> []"
  by (simp add: createFluxFilters_def equality_predicate_def)

text \<open>
  C2, amended: when the input is absent the clause is the empty string; when the
  input is a non-empty string, of \<open>n\<close> comma-separated values (\<open>n\<close> is the number of
  commas plus one, the values joined by commas give the input back, and no value
  contains a comma), the clause is one \<open>filter(fn: (r) => ...)\<close> stage around the \<open>n\<close>
  equality predicates, one per value and in order, joined with \<open>" or "\<close>.
\<close>
theorem filter_clause_per_value:
  assumes "s \<noteq> []"
  shows "createFluxFilters col None = []
       \<and> length (comma_values s) = Suc (length (filter (\<lambda>x. x = CHR '','') s))
       \<and> join '','' (comma_values s) = s
       \<and> (\<forall>v \<in> set (comma_values s). CHR '','' \<notin> set v)
       \<and> createFluxFilters col (Some s) =
           ''|> filter(fn: (r) => '' @ join '' or '' (map (equality_predicate col) (comma_values s))
           @ '')''"
proof -
  have "createFluxFilters col None = []" by (simp add: createFluxFilters_def)
  moreover have "length (comma_values s) = Suc (length (filter (\<lambda>x. x = CHR '','') s))"
    unfolding comma_values_def by (rule split_on_length)
  moreover have "join '','' (comma_values s) = s"
    unfolding comma_values_def by (rule split_on_join)
  moreover have "\<forall>v \<in> set (comma_values s). CHR '','' \<notin> set v"
    unfolding comma_values_def by (rule split_on_pieces)
  ultimately show ?thesis using createFluxFilters_Some [of col s] by blast
qed

theorem filter_clause_per_value_witness:
  "''a,b'' \<noteq> []
   \<and> comma_values ''a,b'' = [''a'', ''b'']
   \<and> createFluxFilters ''id'' (Some ''a,b'') =
       ''|> filter(fn: (r) => r['' @ [DQ] @ ''id'' @ [DQ] @ ''] == '' @ [DQ] @ ''a'' @ [DQ]
       @ '' or r['' @ [DQ] @ ''id'' @ [DQ] @ ''] == '' @ [DQ] @ ''b'' @ [DQ] @ '')''"
proof -
  have h: "''a,b'' \<noteq> []" by simp
  have v: "comma_values ''a,b'' = [''a'', ''b'']" by (simp add: comma_values_def)
  show ?thesis using h v filter_clause_per_value [OF h, of "''id''"]
    by (simp add: equality_predicate_def)
qed

text \<open>
  C10: when the processing loop completes, the bundle has one entry per distinct
  identifier (its keys are distinct and are exactly the identifiers of the tables),
  the entry of an identifier is the normalized table of the last input table with
  that identifier, and the loop itself prints nothing (the output is what the
  normalizer printed for each table).
\<close>
theorem last_writer_wins:
  assumes "snd (process_dataframes fmt output_tz dfs []) = Inr b"
  shows "distinct (map fst b)
       \<and> fst ` set b = {k. \<exists>df \<in> set dfs. \<exists>t. snd (processInfluxDF fmt df output_tz) = Inr (k, t)}
       \<and> (\<forall>j k t. j < length dfs
             \<and> snd (processInfluxDF fmt (dfs ! j) output_tz) = Inr (k, t)
             \<and> (\<forall>i t'. j < i \<and> i < length dfs
                   \<longrightarrow> snd (processInfluxDF fmt (dfs ! i) output_tz) \<noteq> Inr (k, t'))
             \<longrightarrow> map_of b k = Some t)
       \<and> fst (process_dataframes fmt output_tz dfs []) =
           concat (map (\<lambda>df. fst (processInfluxDF fmt df output_tz)) dfs)"
proof -
  let ?P = "\<lambda>df. snd (processInfluxDF fmt df output_tz)"
  obtain ps where ps: "map ?P dfs = map Inr ps" and b: "b = assign_all [] ps"
    using process_dataframes_Inr [OF assms] by blast
  have len: "length ps = length dfs" using ps by (metis length_map)
  have nth: "\<And>j. j < length dfs \<Longrightarrow> ?P (dfs ! j) = Inr (ps ! j)"
  proof -
    fix j assume j: "j < length dfs"
    then have "map ?P dfs ! j = map Inr ps ! j" using ps by simp
    then show "?P (dfs ! j) = Inr (ps ! j)" using j len by simp
  qed
  have c1: "distinct (map fst b)" unfolding b by (rule distinct_assign_all) simp
  have keys: "fst ` set b = fst ` set ps" unfolding b by (simp add: keys_assign_all)
  have c2: "fst ` set b = {k. \<exists>df \<in> set dfs. \<exists>t. ?P df = Inr (k, t)}"
  proof (rule set_eqI, rule iffI)
    fix k assume "k \<in> fst ` set b"
    then obtain p where "p \<in> set ps" "fst p = k" using keys by auto
    then obtain j where j: "j < length ps" "ps ! j = p" by (auto simp: in_set_conv_nth)
    then have "?P (dfs ! j) = Inr (k, snd p)" using nth [of j] len \<open>fst p = k\<close> by auto
    moreover have "dfs ! j \<in> set dfs" using j len by simp
    ultimately show "k \<in> {k. \<exists>df \<in> set dfs. \<exists>t. ?P df = Inr (k, t)}" by blast
  next
    fix k assume "k \<in> {k. \<exists>df \<in> set dfs. \<exists>t. ?P df = Inr (k, t)}"
    then obtain df t where "df \<in> set dfs" "?P df = Inr (k, t)" by blast
    then obtain j where j: "j < length dfs" "dfs ! j = df" by (auto simp: in_set_conv_nth)
    then have "ps ! j = (k, t)" using nth [of j] \<open>?P df = Inr (k, t)\<close> by simp
    then have "(k, t) \<in> set ps" using j len by (metis nth_mem)
    then show "k \<in> fst ` set b" using keys by force
  qed
  have c3: "\<forall>j k t. j < length dfs \<and> ?P (dfs ! j) = Inr (k, t)
             \<and> (\<forall>i t'. j < i \<and> i < length dfs \<longrightarrow> ?P (dfs ! i) \<noteq> Inr (k, t'))
             \<longrightarrow> map_of b k = Some t"
  proof (intro allI impI)
    fix j k t
    assume h: "j < length dfs \<and> ?P (dfs ! j) = Inr (k, t)
             \<and> (\<forall>i t'. j < i \<and> i < length dfs \<longrightarrow> ?P (dfs ! i) \<noteq> Inr (k, t'))"
    then have j: "j < length ps" and at: "ps ! j = (k, t)" using nth [of j] len by auto
    have later: "\<forall>i. j < i \<and> i < length ps \<longrightarrow> fst (ps ! i) \<noteq> k"
    proof (intro allI impI)
      fix i assume i: "j < i \<and> i < length ps"
      then have "?P (dfs ! i) = Inr (ps ! i)" using nth [of i] len by simp
      moreover have "?P (dfs ! i) \<noteq> Inr (k, snd (ps ! i))" using h i len by simp
      ultimately show "fst (ps ! i) \<noteq> k" by (cases "ps ! i") auto
    qed
    have "map_of (rev ps) k = Some t" using j at later by (rule map_of_rev_last)
    then show "map_of b k = Some t" unfolding b by (simp add: map_of_assign_all)
  qed
  have c4: "fst (process_dataframes fmt output_tz dfs []) =
           concat (map (\<lambda>df. fst (processInfluxDF fmt df output_tz)) dfs)"
    using assms by (rule process_dataframes_events)
  show ?thesis using c1 c2 c3 c4 by blast
qed

lemma box7_table_result:
  "processInfluxDF no_format box7_table utc =
     ([Print err_warning],
      Inr (''box7_P1'', [(''time'', FloatQuotCol [10000000000, 11000000000] 1000000000),
                         (''value'', ValCol [1013, 1014])]))"
  by (simp add: processInfluxDF_def box7_table_def bind_def lift_def ebind_def getitem_def
      ok_def drop_columns_def columns_def drop_baro_time_def drop_err_def err_list_def
      print_def convert_time_def rename_column_def setitem_def utc_def)

lemma box7_later_result:
  "processInfluxDF no_format box7_later utc =
     ([], Inr (''box7_P1'', [(''time'', FloatQuotCol [12000000000] 1000000000),
                            (''value'', ValCol [1015])]))"
  by (simp add: processInfluxDF_def box7_later_def bind_def lift_def ebind_def getitem_def
      ok_def drop_columns_def columns_def drop_baro_time_def drop_err_def err_list_def
      print_def convert_time_def rename_column_def setitem_def utc_def)

theorem last_writer_wins_witness:
  "snd (processInfluxDF no_format box7_table utc) =
     Inr (''box7_P1'', [(''time'', FloatQuotCol [10000000000, 11000000000] 1000000000),
                        (''value'', ValCol [1013, 1014])])
   \<and> snd (processInfluxDF no_format box7_later utc) =
       Inr (''box7_P1'', [(''time'', FloatQuotCol [12000000000] 1000000000),
                          (''value'', ValCol [1015])])
   \<and> snd (process_dataframes no_format utc [box7_table, box7_later] []) =
       Inr [(''box7_P1'', [(''time'', FloatQuotCol [12000000000] 1000000000),
                           (''value'', ValCol [1015])])]"
proof -
  have h: "snd (process_dataframes no_format utc [box7_table, box7_later] []) =
     Inr [(''box7_P1'', [(''time'', FloatQuotCol [12000000000] 1000000000),
                         (''value'', ValCol [1015])])]"
    by (simp add: box7_table_result box7_later_result ok_def)
  show ?thesis using h last_writer_wins [OF h]
    by (simp add: box7_table_result box7_later_result)
qed

section \<open>Exporter, credentials and the time range: main results\<close>

text \<open>
  C7: when the extension of the output path is none of \<open>.csv\<close>, \<open>.mat\<close>, \<open>.pickle\<close>, the
  exporter writes no file, prints nothing and returns normally.
\<close>
theorem unknown_extension_noop:
  assumes "snd (splitext path) \<notin> {''.csv'', ''.mat'', ''.pickle''}"
  shows "export_output out_df path = ([], Inr ())"
  using assms by (simp add: export_output_def ok_def)

lemma splitext_data_txt: "splitext ''data.txt'' = (''data'', ''.txt'')"
  by code_simp

theorem unknown_extension_noop_witness:
  "snd (splitext ''data.txt'') = ''.txt''
   \<and> export_output [(''box7_P1'', [(''value'', ValCol [1013 :: int])])] ''data.txt'' = ([], Inr ())"
proof -
  have h: "snd (splitext ''data.txt'') \<notin> {''.csv'', ''.mat'', ''.pickle''}"
    by (simp add: splitext_data_txt)
  show ?thesis using unknown_extension_noop [OF h] by (simp add: splitext_data_txt)
qed

text \<open>
  C8: when the path does not name an existing file, the loader prints the message and
  exits with status 1 (a \<open>SystemExit\<close>, which has no traceback). When it names an
  existing file, the message is not printed, and from a stored record with the keys
  \<open>idb_url\<close>, \<open>idb_token\<close> and \<open>idb_org\<close> the client is constructed with these values.
\<close>
theorem credentials_missing_or_loaded:
  "(\<not> isfile fs path \<longrightarrow>
      loadInfluxClient pickle_load fs path = ([Print not_found_message], Inl (SystemExit 1)))
   \<and> (isfile fs path \<longrightarrow>
        fst (loadInfluxClient pickle_load fs path) = []
      \<and> (\<forall>f kvs u t g.
            fs path = Some (RegularFile f) \<and> pickle_load f = Inr (PDict kvs)
          \<and> map_of kvs ''idb_url'' = Some u \<and> map_of kvs ''idb_token'' = Some t
          \<and> map_of kvs ''idb_org'' = Some g
          \<longrightarrow> snd (loadInfluxClient pickle_load fs path) =
                Inr (\<lparr>url = u, token = t, org = g, timeout = 100000000\<rparr>,
                     QueryApi \<lparr>url = u, token = t, org = g, timeout = 100000000\<rparr>)))"
proof (intro conjI impI allI)
  assume "\<not> isfile fs path"
  then show "loadInfluxClient pickle_load fs path = ([Print not_found_message], Inl (SystemExit 1))"
    by (simp add: loadInfluxClient_def bind_def print_def lift_def)
next
  assume "isfile fs path"
  then show "fst (loadInfluxClient pickle_load fs path) = []"
    by (simp add: loadInfluxClient_def bind_def lift_def ok_def Let_def split: sum.splits)
next
  fix f kvs u t g
  assume "isfile fs path"
    and "fs path = Some (RegularFile f) \<and> pickle_load f = Inr (PDict kvs)
          \<and> map_of kvs ''idb_url'' = Some u \<and> map_of kvs ''idb_token'' = Some t
          \<and> map_of kvs ''idb_org'' = Some g"
  then show "snd (loadInfluxClient pickle_load fs path) =
                Inr (\<lparr>url = u, token = t, org = g, timeout = 100000000\<rparr>,
                     QueryApi \<lparr>url = u, token = t, org = g, timeout = 100000000\<rparr>)"
    by (simp add: loadInfluxClient_def bind_def lift_def ok_def Let_def)
qed

theorem credentials_missing_or_loaded_witness:
  "loadInfluxClient sample_pickle_load sample_fs ''no-such-file'' =
     ([Print not_found_message], Inl (SystemExit 1))
   \<and> loadInfluxClient sample_pickle_load sample_fs ''data'' =
     ([Print not_found_message], Inl (SystemExit 1))
   \<and> loadInfluxClient sample_pickle_load sample_fs ''influx-creds.pickle'' =
     ([], Inr (\<lparr>url = ''http://localhost:8086'', token = ''secret'', org = ''paros'',
                 timeout = 100000000\<rparr>,
               QueryApi \<lparr>url = ''http://localhost:8086'', token = ''secret'', org = ''paros'',
                 timeout = 100000000\<rparr>))"
proof -
  have a: "\<not> isfile sample_fs ''no-such-file''" and b: "\<not> isfile sample_fs ''data''"
    and c: "isfile sample_fs ''influx-creds.pickle''"
    by (simp_all add: sample_fs_def)
  have d: "sample_fs ''influx-creds.pickle'' = Some (RegularFile sample_record)
         \<and> sample_pickle_load sample_record = Inr (PDict [(''idb_url'', ''http://localhost:8086''),
               (''idb_org'', ''paros''), (''idb_token'', ''secret'')])"
    by (simp add: sample_fs_def sample_pickle_load_def sample_record_def)
  show ?thesis
    using a b c d
      credentials_missing_or_loaded [of sample_fs "''no-such-file''" sample_pickle_load]
      credentials_missing_or_loaded [of sample_fs "''data''" sample_pickle_load]
      credentials_missing_or_loaded [of sample_fs "''influx-creds.pickle''" sample_pickle_load]
    by (auto simp: prod_eq_iff)
qed

lemma to_naive_utc_Naive:
  assumes "fromisoformat lib s = Inr (Naive w)" and "z w = Inr off"
    and "datetime_min \<le> w - off" and "w - off \<le> datetime_max"
  shows "to_naive_utc lib z s = Inr (w - off)"
  using assms
  by (simp add: to_naive_utc_def ebind_def astimezone_utc_def replace_tzinfo_None_def Let_def)

lemma to_naive_utc_overflow:
  assumes "fromisoformat lib s = Inr (Naive w)" and "z w = Inr off"
    and "w - off < datetime_min \<or> datetime_max < w - off"
  shows "to_naive_utc lib z s = Inl OverflowError"
  using assms
  by (auto simp: to_naive_utc_def ebind_def astimezone_utc_def Let_def)

lemma build_query_range:
  "\<exists>rest. build_query lib a ws we =
     ''from(bucket: '' @ [DQ] @ bucket a @ [DQ] @ '')'' @ [NL] @ ''        ''
     @ ''|> range(start: '' @ isoformat lib ws @ ''Z, stop: '' @ isoformat lib we @ ''Z)''
     @ [NL] @ rest"
  by (simp add: build_query_def Let_def range_stage_def)

text \<open>
  A time whose UTC wall-clock time would lie after \<open>datetime.max\<close> ends \<open>main\<close> with
  OverflowError: no query is built.
\<close>

lemma late_end_time_overflows: "main_query sample_library late_args = Inl OverflowError"
proof -
  have s: "to_naive_utc sample_library (\<lambda>w. Inr (- 18000000000)) ''1970-01-02T00:00:00'' =
             Inr (86400000000 - (- 18000000000))"
    by (rule to_naive_utc_Naive) (simp_all add: sample_library_def datetime_min_def datetime_max_def)
  have e: "to_naive_utc sample_library (\<lambda>w. Inr (- 18000000000)) ''9999-12-31T23:00:00'' =
             Inl OverflowError"
    by (rule to_naive_utc_overflow [where w = 253402297200000000 and off = "- 18000000000"])
      (simp_all add: sample_library_def datetime_max_def)
  have z: "pytz_timezone sample_library ''Etc/GMT+5'' = Inr (\<lambda>w. Inr (- 18000000000))"
    and zo: "pytz_timezone sample_library ''Etc/UTC'' = Inr (\<lambda>w. Inr 0)"
    by (simp_all add: sample_library_def)
  show ?thesis
    by (simp add: main_query_def late_args_def sample_args_def z zo s e ebind_def)
qed

text \<open>
  C3: for time strings that parse as naive timestamps, zone names that are known and
  times whose UTC wall-clock time lies in the datetime range (years 1 to 9999), each
  timestamp is localized to the input zone, converted to UTC (its wall-clock time
  minus the offset the zone gives it) and stripped of the zone, and the ISO text of
  that naive UTC time is put into the \<open>range(...)\<close> stage followed by a literal \<open>Z\<close>.
\<close>
theorem range_stage_in_utc:
  assumes "pytz_timezone lib (input_zone a) = Inr input_tz"
    and "pytz_timezone lib (output_zone a) = Inr output_tz"
    and "fromisoformat lib (start_time a) = Inr (Naive ws)"
    and "fromisoformat lib (end_time a) = Inr (Naive we)"
    and "input_tz ws = Inr os" and "input_tz we = Inr oe"
    and "datetime_min \<le> ws - os" and "ws - os \<le> datetime_max"
    and "datetime_min \<le> we - oe" and "we - oe \<le> datetime_max"
  shows "\<exists>rest. main_query lib a =
     Inr (''from(bucket: '' @ [DQ] @ bucket a @ [DQ] @ '')'' @ [NL] @ ''        ''
          @ ''|> range(start: '' @ isoformat lib (ws - os) @ ''Z, stop: ''
          @ isoformat lib (we - oe) @ ''Z)'' @ [NL] @ rest)"
proof -
  have s: "to_naive_utc lib input_tz (start_time a) = Inr (ws - os)"
    using assms(3,5,7,8) by (rule to_naive_utc_Naive)
  have e: "to_naive_utc lib input_tz (end_time a) = Inr (we - oe)"
    using assms(4,6,9,10) by (rule to_naive_utc_Naive)
  have "main_query lib a = Inr (build_query lib a (ws - os) (we - oe))"
    using assms(1,2) by (simp add: main_query_def ebind_def s e)
  then show ?thesis using build_query_range [of lib a "ws - os" "we - oe"]
    by auto
qed

theorem range_stage_in_utc_witness:
  "main_query sample_library sample_args =
     Inr (''from(bucket: '' @ [DQ] @ ''parosbox'' @ [DQ] @ '')'' @ [NL] @ ''        ''
          @ ''|> range(start: 1970-01-02T05:00:00Z, stop: 1970-01-02T06:00:00Z)'' @ [NL]
          @ [TAB] @ ''|> filter(fn: (r) => r['' @ [DQ] @ ''_measurement'' @ [DQ] @ ''] == ''
          @ [DQ] @ ''box7'' @ [DQ] @ '')'' @ [NL] @ query_tail)"
proof -
  let ?z = "\<lambda>w::int. Inr (- 18000000000) :: error + int"
  have z: "pytz_timezone sample_library (input_zone sample_args) = Inr ?z"
    and zo: "pytz_timezone sample_library (output_zone sample_args) = Inr (\<lambda>w. Inr 0)"
    and s: "fromisoformat sample_library (start_time sample_args) = Inr (Naive 86400000000)"
    and e: "fromisoformat sample_library (end_time sample_args) = Inr (Naive 90000000000)"
    by (simp_all add: sample_library_def sample_args_def)
  have os: "?z 86400000000 = Inr (- 18000000000)" and oe: "?z 90000000000 = Inr (- 18000000000)"
    by simp_all
  have r1: "datetime_min \<le> 86400000000 - (- 18000000000)"
    and r2: "86400000000 - (- 18000000000) \<le> datetime_max"
    and r3: "datetime_min \<le> 90000000000 - (- 18000000000)"
    and r4: "90000000000 - (- 18000000000) \<le> datetime_max"
    by (simp_all add: datetime_min_def datetime_max_def)
  obtain rest where r: "main_query sample_library sample_args =
     Inr (''from(bucket: '' @ [DQ] @ bucket sample_args @ [DQ] @ '')'' @ [NL] @ ''        ''
          @ ''|> range(start: '' @ isoformat sample_library (86400000000 - (- 18000000000))
          @ ''Z, stop: '' @ isoformat sample_library (90000000000 - (- 18000000000))
          @ ''Z)'' @ [NL] @ rest)"
    using range_stage_in_utc [OF z zo s e os oe r1 r2 r3 r4] by blast
  have s': "to_naive_utc sample_library ?z (start_time sample_args) =
              Inr (86400000000 - (- 18000000000))"
    using s os r1 r2 by (rule to_naive_utc_Naive)
  have e': "to_naive_utc sample_library ?z (end_time sample_args) =
              Inr (90000000000 - (- 18000000000))"
    using e oe r3 r4 by (rule to_naive_utc_Naive)
  have "main_query sample_library sample_args =
     Inr (build_query sample_library sample_args 104400000000 108000000000)"
    using z zo s' e' by (simp add: main_query_def ebind_def)
  then show ?thesis using r
    by (simp add: build_query_def Let_def range_stage_def sample_library_def sample_args_def
        createFluxFilters_def equality_predicate_def)
qed

section \<open>The time values of the normalized table\<close>






end
